theory Spec2Isabelle
  imports Main "HOL-Library.Sublist"
begin

section \<open>InstanceSegMetric: the data\<close>

text \<open>
  The class \<open>InstanceSegMetric\<close> of \<open>mmdet3d/evaluation/metrics/instance_seg_metric.py\<close>
  has three methods: \<open>__init__\<close>, \<open>process\<close> and \<open>evaluate\<close>. Each is embedded below as a
  function with the same name, every raise as a value \<open>Inl e\<close>.
\<close>

datatype error = KeyError | AttributeError | TypeError | RuntimeError

subsection \<open>Field values and their storage\<close>

text \<open>
  A field value of \<open>pred_pts_seg\<close> or \<open>eval_ann_info\<close> is a Python object on which
  \<open>process\<close> calls \<open>clone\<close>, \<open>cpu\<close>, \<open>to\<close> and \<open>numpy\<close> and which it probes with
  \<open>hasattr(v, 'to')\<close>. An object is described by the methods it has, the device its data
  lives on, whether it requires grad (is part of a computation graph, with gradient
  recording on), and the address of the buffer that holds its data. A \<open>torch.Tensor\<close> has
  all four methods; a \<open>numpy.ndarray\<close> has none of them, lives in host memory and is part
  of no graph.

  The heap is the list of all buffers; the address of a buffer is its index. A new buffer
  is appended, so no allocation changes an existing address.
\<close>

datatype device = CPU | CUDA nat

record pyobj =
  has_clone :: bool
  has_cpu :: bool
  has_to :: bool
  has_numpy :: bool
  device :: device
  requires_grad :: bool
  storage :: nat

type_synonym 'e heap = "'e list list"

definition contents :: "'e heap \<Rightarrow> nat \<Rightarrow> 'e list" where
  "contents h a = (if a < length h then h ! a else [])"

definition ndarray :: "nat \<Rightarrow> pyobj" where
  "ndarray a = \<lparr>has_clone = False, has_cpu = False, has_to = False, has_numpy = False,
     device = CPU, requires_grad = False, storage = a\<rparr>"

text \<open>A tensor that does not require grad, as a model in inference returns it.\<close>

definition tensor :: "device \<Rightarrow> nat \<Rightarrow> pyobj" where
  "tensor d a = \<lparr>has_clone = True, has_cpu = True, has_to = True, has_numpy = True,
     device = d, requires_grad = False, storage = a\<rparr>"

text \<open>
  The four methods are those of the values' classes, not of this repository. They are
  modelled after \<open>torch.Tensor\<close>, the class the conversion is written for:
  \<^item> \<open>v.clone()\<close> returns a new object of the same kind on the same device, with a new
    buffer holding a copy of the data;
  \<^item> \<open>v.cpu()\<close> and \<open>v.to('cpu')\<close> return \<open>v\<close> itself when it is in host memory already,
    and otherwise a new object in host memory with a copy of the data;
  \<^item> all three stay in the computation graph: their result requires grad when \<open>v\<close> does;
  \<^item> \<open>v.numpy()\<close> returns an array that shares the buffer of \<open>v\<close>; it raises a TypeError
    when \<open>v\<close> is not in host memory, and a RuntimeError when \<open>v\<close> requires grad (no chain
    of \<open>process\<close> calls \<open>detach\<close>).
  Calling a method the object does not have raises an AttributeError.
\<close>

definition clone :: "pyobj \<Rightarrow> 'e heap \<Rightarrow> error + pyobj \<times> 'e heap" where
  "clone v h =
     (if has_clone v then Inr (v\<lparr>storage := length h\<rparr>, h @ [contents h (storage v)])
      else Inl AttributeError)"

definition cpu :: "pyobj \<Rightarrow> 'e heap \<Rightarrow> error + pyobj \<times> 'e heap" where
  "cpu v h =
     (if has_cpu v then
        (if device v = CPU then Inr (v, h)
         else Inr (v\<lparr>device := CPU, storage := length h\<rparr>, h @ [contents h (storage v)]))
      else Inl AttributeError)"

definition to_cpu :: "pyobj \<Rightarrow> 'e heap \<Rightarrow> error + pyobj \<times> 'e heap" where
  "to_cpu v h =
     (if has_to v then
        (if device v = CPU then Inr (v, h)
         else Inr (v\<lparr>device := CPU, storage := length h\<rparr>, h @ [contents h (storage v)]))
      else Inl AttributeError)"

definition numpy :: "pyobj \<Rightarrow> 'e heap \<Rightarrow> error + pyobj \<times> 'e heap" where
  "numpy v h =
     (if has_numpy v then
        (if device v = CPU then
           (if requires_grad v then Inl RuntimeError else Inr (ndarray (storage v), h))
         else Inl TypeError)
      else Inl AttributeError)"

text \<open>Method chaining: the next call runs on the result of the previous one, unless it raised.\<close>

definition and_then ::
  "error + 'a \<times> 'h \<Rightarrow> ('a \<Rightarrow> 'h \<Rightarrow> error + 'b \<times> 'h) \<Rightarrow> error + 'b \<times> 'h" where
  "and_then r f = (case r of Inl e \<Rightarrow> Inl e | Inr (x, h) \<Rightarrow> f x h)"

subsection \<open>Samples and the metric's state\<close>

text \<open>
  A mapping from field names to values is a Python dict: an association list in insertion
  order, without duplicate keys. A data sample is a dict of which \<open>process\<close> reads the keys
  \<open>'pred_pts_seg'\<close> and \<open>'eval_ann_info'\<close>; \<open>None\<close> stands for a key that is absent.
\<close>

type_synonym fields = "(string \<times> pyobj) list"

record data_sample =
  pred_pts_seg :: "fields option"
  eval_ann_info :: "fields option"

text \<open>
  The state of the metric is the buffer \<open>self._results\<close> of the base class
  \<open>mmeval.metrics.InstanceSeg\<close>: the (prediction, ground truth) pairs accumulated so far.
\<close>

record metric =
  results :: "(fields \<times> fields) list"

text \<open>
  Modelled from the spec: the methods \<open>add\<close> and \<open>reset\<close> of the base class, which is not
  part of this repository. \<open>add\<close> "appends the converted (prediction, ground truth) pair
  for every sample into the shared Accumulated Results buffer"; \<open>reset\<close> leaves the
  buffer empty.
\<close>

definition add :: "fields list \<Rightarrow> fields list \<Rightarrow> metric \<Rightarrow> metric" where
  "add predictions groundtruths st = st\<lparr>results := results st @ zip predictions groundtruths\<rparr>"

definition reset :: "metric \<Rightarrow> metric" where
  "reset st = st\<lparr>results := []\<rparr>"

section \<open>process\<close>

text \<open>The three conversion chains of \<open>process\<close>.\<close>

definition conv_comprehension :: "pyobj \<Rightarrow> 'e heap \<Rightarrow> error + pyobj \<times> 'e heap" where
  \<comment> \<open>\<open>v.clone().cpu().numpy()\<close>\<close>
  "conv_comprehension v h = and_then (and_then (clone v h) cpu) numpy"

definition conv_to :: "pyobj \<Rightarrow> 'e heap \<Rightarrow> error + pyobj \<times> 'e heap" where
  \<comment> \<open>\<open>v.to('cpu').clone().numpy()\<close>\<close>
  "conv_to v h = and_then (and_then (to_cpu v h) clone) numpy"

definition conv_else :: "pyobj \<Rightarrow> 'e heap \<Rightarrow> error + pyobj \<times> 'e heap" where
  \<comment> \<open>\<open>v.clone().numpy()\<close>\<close>
  "conv_else v h = and_then (clone v h) numpy"

text \<open>\<open>{k: v.clone().cpu().numpy() for k, v in d.items()}\<close>\<close>

fun comprehension :: "fields \<Rightarrow> 'e heap \<Rightarrow> error + fields \<times> 'e heap" where
  "comprehension [] h = Inr ([], h)"
| "comprehension ((k, v) # kvs) h =
     (case conv_comprehension v h of
        Inl e \<Rightarrow> Inl e
      | Inr (a, h1) \<Rightarrow>
          (case comprehension kvs h1 of
             Inl e \<Rightarrow> Inl e
           | Inr (d, h2) \<Rightarrow> Inr ((k, a) # d, h2)))"

text \<open>\<open>d[k] = a\<close>: an existing key keeps its place, a new key goes to the end.\<close>

fun setitem :: "string \<Rightarrow> pyobj \<Rightarrow> fields \<Rightarrow> fields" where
  "setitem k a [] = [(k, a)]"
| "setitem k a ((k', b) # d) = (if k' = k then (k, a) # d else (k', b) # setitem k a d)"

text \<open>
  The loop \<open>for k, v in pred_3d.items()\<close> of lines 64 to 68, over the items still to visit,
  with the dict \<open>cpu_pred_3d\<close> it assigns to.
\<close>

fun capability_loop :: "fields \<Rightarrow> fields \<Rightarrow> 'e heap \<Rightarrow> error + fields \<times> 'e heap" where
  "capability_loop [] cpu_pred_3d h = Inr (cpu_pred_3d, h)"
| "capability_loop ((k, v) # kvs) cpu_pred_3d h =
     (case (if has_to v then conv_to v h else conv_else v h) of
        Inl e \<Rightarrow> Inl e
      | Inr (a, h1) \<Rightarrow> capability_loop kvs (setitem k a cpu_pred_3d) h1)"

text \<open>The body of the loop over the samples: lines 54 to 68.\<close>

definition process_sample :: "data_sample \<Rightarrow> 'e heap \<Rightarrow> error + (fields \<times> fields) \<times> 'e heap" where
  "process_sample data_sample h =
     (case pred_pts_seg data_sample of
        None \<Rightarrow> Inl KeyError
      | Some pred_3d \<Rightarrow>
          (case eval_ann_info data_sample of
             None \<Rightarrow> Inl KeyError
           | Some ann \<Rightarrow>
               and_then (comprehension pred_3d h) (\<lambda>cpu_pred_3d h1.
               and_then (comprehension ann h1) (\<lambda>cpu_eval_ann_info h2.
               and_then (capability_loop pred_3d cpu_pred_3d h2) (\<lambda>cpu_pred_3d' h3.
               Inr ((cpu_pred_3d', cpu_eval_ann_info), h3))))))"

text \<open>The loop over \<open>data_samples\<close>, with the lists \<open>pred\<close> and \<open>gt\<close> it appends to.\<close>

fun samples_loop ::
  "data_sample list \<Rightarrow> fields list \<Rightarrow> fields list \<Rightarrow> 'e heap \<Rightarrow>
   error + (fields list \<times> fields list) \<times> 'e heap" where
  "samples_loop [] pred gt h = Inr ((pred, gt), h)"
| "samples_loop (s # ss) pred gt h =
     (case process_sample s h of
        Inl e \<Rightarrow> Inl e
      | Inr ((p, g), h1) \<Rightarrow> samples_loop ss (pred @ [p]) (gt @ [g]) h1)"

text \<open>
  \<open>process(self, data_batch, data_samples)\<close>: the state is the metric and the heap. The
  buffer is written by the one call of \<open>self.add\<close> after the loop, so a call that raises
  leaves it as it was.
\<close>

definition process ::
  "'b \<Rightarrow> data_sample list \<Rightarrow> metric \<times> 'e heap \<Rightarrow> error + metric \<times> 'e heap" where
  "process data_batch data_samples sh =
     (case samples_loop data_samples [] [] (snd sh) of
        Inl e \<Rightarrow> Inl e
      | Inr ((pred, gt), h1) \<Rightarrow> Inr (add pred gt (fst sh), h1))"

section \<open>__init__\<close>

text \<open>
  \<open>__init__(self, dataset_meta, dist_backend=None, collect_device=None, prefix=None,
  **kwargs)\<close>. Python's \<open>None\<close> is the option \<open>None\<close>; \<open>kwargs\<close> holds the keyword arguments of the
  call that are none of the four named parameters. The constructor calls
  \<open>warnings.warn\<close> and then the constructor of the base class, which is not part of this
  repository: the model returns the messages passed to \<open>warnings.warn\<close>, in order, and the
  arguments of the call \<open>super().__init__(dataset_meta=dataset_meta,
  dist_backend=dist_backend, **kwargs)\<close>. What the filters of the \<open>warnings\<close> module do with
  a message is not part of the class.
\<close>

record ('m, 'v) base_init_call =
  dataset_meta :: 'm
  dist_backend :: "string option"
  kwargs :: "(string \<times> 'v) list"

definition collect_device_warning :: string where
  "collect_device_warning =
     ''DeprecationWarning: The `collect_device` parameter of '' @
     ''`InstanceSegMetric` is deprecated, use `dist_backend instead.''"

definition prefix_warning :: string where
  "prefix_warning =
     ''DeprecationWarning: The `prefix` parameter of '' @
     ''`InstanceSegMetric` is deprecated.''"

definition init ::
  "'m \<Rightarrow> string option \<Rightarrow> string option \<Rightarrow> string option \<Rightarrow> (string \<times> 'v) list \<Rightarrow>
   string list \<times> ('m, 'v) base_init_call" where
  "init dm db collect_device pfx kw =
     ((if collect_device \<noteq> None then [collect_device_warning] else []) @
      (if pfx \<noteq> None then [prefix_warning] else []),
      \<lparr>dataset_meta = dm, dist_backend = db, kwargs = kw\<rparr>)"

section \<open>evaluate\<close>

subsection \<open>The report and its numbers\<close>

text \<open>
  The AP values of a report are Python floats: a finite float is a sign, a mantissa and a
  binary exponent, \<open>Finite s m e\<close> standing for \<open>(-1)\<^sup>s \<cdot> m \<cdot> 2\<^sup>e\<close>; the others are the two
  infinities and NaN.
\<close>

datatype pyfloat = Finite bool nat int | Infinity bool | NaN

text \<open>
  The format \<open>f'{ap:.4f}'\<close> is Python's, not this repository's. It prints the decimal
  expansion of the exact value rounded to four places, ties to even, with the sign of the
  float; an infinity prints as \<open>inf\<close> or \<open>-inf\<close> and NaN as \<open>nan\<close>.
\<close>

definition scaled4 :: "nat \<Rightarrow> int \<Rightarrow> nat" where
  \<comment> \<open>\<open>m \<cdot> 2\<^sup>e \<cdot> 10\<^sup>4\<close> rounded to the nearest integer, ties to even\<close>
  "scaled4 m e =
     (if 0 \<le> e then m * 2 ^ nat e * 10000
      else
        (let num = m * 10000; den = 2 ^ nat (- e); q = num div den; r = num mod den
         in if den < 2 * r \<or> (2 * r = den \<and> odd q) then q + 1 else q))"

definition digit :: "nat \<Rightarrow> char" where
  "digit n = ''0123456789'' ! (n mod 10)"

fun decimal :: "nat \<Rightarrow> string" where
  "decimal n = (if n < 10 then [digit n] else decimal (n div 10) @ [digit n])"

definition format_4f :: "pyfloat \<Rightarrow> string" where
  "format_4f x =
     (case x of
        NaN \<Rightarrow> ''nan''
      | Infinity s \<Rightarrow> (if s then ''-inf'' else ''inf'')
      | Finite s m e \<Rightarrow>
          (let q = scaled4 m e
           in (if s then ''-'' else []) @ decimal (q div 10000) @ ''.'' @
              [digit (q div 1000), digit (q div 100), digit (q div 10), digit q]))"

text \<open>
  The report is the value of \<open>self.compute(*args, **kwargs)\<close>, of the shape the base metric
  returns: the keys \<open>classes\<close> (a dict from the class label to a dict with the keys
  \<open>ap25%\<close>, \<open>ap50%\<close>, \<open>ap\<close>), \<open>all_ap_25%\<close>, \<open>all_ap_50%\<close> and \<open>all_ap\<close>.
\<close>

record class_ap =
  ap25 :: pyfloat
  ap50 :: pyfloat
  ap :: pyfloat

record report =
  classes :: "(string \<times> class_ap) list"
  all_ap_25 :: pyfloat
  all_ap_50 :: pyfloat
  all_ap :: pyfloat

text \<open>
  \<open>AsciiTable\<close> is the table of the library \<open>terminaltables\<close>: the rows it is built from
  and the attribute \<open>inner_footing_row_border\<close>, which is off in a new table and which
  \<open>evaluate\<close> turns on. The text of the table, \<open>table.table\<close>, is drawn by the library: it
  is the parameter \<open>render\<close> of \<open>evaluate\<close>.
\<close>

record ascii_table =
  table_data :: "string list list"
  inner_footing_row_border :: bool

definition AsciiTable :: "string list list \<Rightarrow> ascii_table" where
  "AsciiTable rows = \<lparr>table_data = rows, inner_footing_row_border = False\<rparr>"

text \<open>
  The drawing of the library, \<open>BaseTable.table\<close>, with every other attribute at its default
  (outer border, column borders, a border under the heading row, no border between
  ordinary rows, one space of padding, cells aligned left) and for cells of one line of
  plain characters, which the header, the formatted numbers and the names of classes are.
  A column is as wide as its widest cell; a row shorter than the table counts as padded
  with empty cells. \<open>gen_table\<close> yields the lines: the top border, then every row, with
  a border after the first row and, when \<open>inner_footing_row_border\<close> is on, after the row
  before the last, and the bottom border. The text is the lines joined by newlines.
\<close>

fun join :: "string \<Rightarrow> string list \<Rightarrow> string" where
  "join sep [] = []"
| "join sep [x] = x"
| "join sep (x # y # ys) = x @ sep @ join sep (y # ys)"

definition cell_at :: "string list \<Rightarrow> nat \<Rightarrow> string" where
  "cell_at row j = (if j < length row then row ! j else [])"

definition inner_widths :: "string list list \<Rightarrow> nat list" where
  "inner_widths rows =
     map (\<lambda>j. foldr (\<lambda>row w. max (length (cell_at row j)) w) rows 0)
       [0..<foldr (\<lambda>row n. max (length row) n) rows 0]"

definition horizontal_border :: "nat list \<Rightarrow> string" where
  "horizontal_border ws = ''+'' @ join ''+'' (map (\<lambda>w. replicate (w + 2) CHR ''-'') ws) @ ''+''"

definition pad_cell :: "nat \<Rightarrow> string \<Rightarrow> string" where
  "pad_cell w cell = '' '' @ cell @ replicate (w - length cell) CHR '' '' @ '' ''"

definition row_line :: "nat list \<Rightarrow> string list \<Rightarrow> string" where
  "row_line ws row =
     ''|'' @ join ''|'' (map (\<lambda>j. pad_cell (ws ! j) (cell_at row j)) [0..<length ws]) @ ''|''"

fun gen_table_body :: "bool \<Rightarrow> nat list \<Rightarrow> nat \<Rightarrow> string list list \<Rightarrow> string list" where
  "gen_table_body footing ws i [] = []"
| "gen_table_body footing ws i [row] = [row_line ws row]"
| "gen_table_body footing ws i (row # r # rows) =
     row_line ws row #
     (if i = 0 then [horizontal_border ws]
      else if footing \<and> rows = [] then [horizontal_border ws]
      else []) @
     gen_table_body footing ws (Suc i) (r # rows)"

definition gen_table :: "ascii_table \<Rightarrow> string list" where
  "gen_table t =
     (let ws = inner_widths (table_data t)
      in [horizontal_border ws] @
         gen_table_body (inner_footing_row_border t) ws 0 (table_data t) @
         [horizontal_border ws])"

definition table :: "ascii_table \<Rightarrow> string" where
  "table t = join [CHR 0x0A] (gen_table t)"

subsection \<open>The method\<close>

definition header :: "string list" where
  "header = [''classes'', ''AP_0.25'', ''AP_0.50'', ''AP'']"

definition class_row :: "string \<times> class_ap \<Rightarrow> string list" where
  "class_row ld = (case ld of (label, data) \<Rightarrow>
     [label] @ map format_4f [ap25 data, ap50 data, ap data])"

definition footer :: "report \<Rightarrow> string list" where
  "footer metrics =
     [''Overall''] @ map format_4f [all_ap_25 metrics, all_ap_50 metrics, all_ap metrics]"

definition report_table :: "report \<Rightarrow> ascii_table" where
  "report_table metrics =
     (AsciiTable ([header] @ map class_row (classes metrics) @ [footer metrics]))
       \<lparr>inner_footing_row_border := True\<rparr>"

text \<open>
  \<open>evaluate(self, *args, **kwargs)\<close>. The computation \<open>self.compute\<close> of the base class is
  the parameter \<open>compute\<close>: it reads the positional and the keyword arguments, the heap and
  the accumulated results, and returns a report or raises. \<open>evaluate\<close> returns the report,
  the message it passes to \<open>print_log\<close>, and the metric after \<open>self.reset()\<close>. With the
  library's drawing, \<open>render\<close> is \<open>table\<close>.
\<close>

definition evaluate ::
  "(ascii_table \<Rightarrow> string) \<Rightarrow>
   ('v list \<Rightarrow> (string \<times> 'v) list \<Rightarrow> 'e heap \<Rightarrow> (fields \<times> fields) list \<Rightarrow> error + report) \<Rightarrow>
   'v list \<Rightarrow> (string \<times> 'v) list \<Rightarrow> 'e heap \<Rightarrow> metric \<Rightarrow> error + report \<times> string \<times> metric" where
  "evaluate render compute args kw h st =
     (case compute args kw h (results st) of
        Inl e \<Rightarrow> Inl e
      | Inr metrics \<Rightarrow> Inr (metrics, CHR 0x0A # render (report_table metrics), reset st))"

section \<open>The vocabulary of the properties\<close>

subsection \<open>Converted samples\<close>

text \<open>
  \<open>host_copy h v h' a\<close>: the object \<open>a\<close> is a host-memory array (a \<open>numpy.ndarray\<close>) whose
  buffer did not exist in the heap \<open>h\<close>, exists in the heap \<open>h'\<close>, and holds there the data
  that the value \<open>v\<close> held in \<open>h\<close>. \<open>fresh_array\<close> is the same without the last part.
\<close>

definition host_copy :: "'e heap \<Rightarrow> pyobj \<Rightarrow> 'e heap \<Rightarrow> pyobj \<Rightarrow> bool" where
  "host_copy h v h' a \<longleftrightarrow>
     a = ndarray (storage a) \<and> length h \<le> storage a \<and> storage a < length h' \<and>
     contents h' (storage a) = contents h (storage v)"


text \<open>
  \<open>converted h kvs h' d\<close>: the dict \<open>d\<close> has the keys of the dict \<open>kvs\<close>, in the same order,
  and under each key a host copy of the value that \<open>kvs\<close> has there.
\<close>

definition converted :: "'e heap \<Rightarrow> fields \<Rightarrow> 'e heap \<Rightarrow> fields \<Rightarrow> bool" where
  "converted h kvs h' d \<longleftrightarrow>
     list_all2 (\<lambda>kv ka. fst ka = fst kv \<and> host_copy h (snd kv) h' (snd ka)) kvs d"

definition sample_converted ::
  "'e heap \<Rightarrow> data_sample \<Rightarrow> 'e heap \<Rightarrow> fields \<times> fields \<Rightarrow> bool" where
  "sample_converted h s h' pg \<longleftrightarrow>
     (case pred_pts_seg s of
        None \<Rightarrow> False
      | Some ps \<Rightarrow>
          (case eval_ann_info s of
             None \<Rightarrow> False
           | Some gs \<Rightarrow> converted h ps h' (fst pg) \<and> converted h gs h' (snd pg)))"




text \<open>
  Well-formed input: a dict has no key twice, and the buffer of every value exists in the
  heap. Both hold of every object graph Python can build.
\<close>

definition valid_fields :: "'e heap \<Rightarrow> fields \<Rightarrow> bool" where
  "valid_fields h kvs \<longleftrightarrow>
     distinct (map fst kvs) \<and> list_all (\<lambda>kv. storage (snd kv) < length h) kvs"

definition valid_sample :: "'e heap \<Rightarrow> data_sample \<Rightarrow> bool" where
  "valid_sample h s \<longleftrightarrow>
     (case pred_pts_seg s of None \<Rightarrow> True | Some ps \<Rightarrow> valid_fields h ps) \<and>
     (case eval_ann_info s of None \<Rightarrow> True | Some gs \<Rightarrow> valid_fields h gs)"

subsection \<open>When a conversion raises\<close>

definition comprehension_ok :: "pyobj \<Rightarrow> bool" where
  "comprehension_ok v \<longleftrightarrow> has_clone v \<and> has_cpu v \<and> has_numpy v \<and> \<not> requires_grad v"

definition capability_ok :: "pyobj \<Rightarrow> bool" where
  "capability_ok v \<longleftrightarrow>
     has_clone v \<and> has_numpy v \<and> (has_to v \<or> device v = CPU) \<and> \<not> requires_grad v"

definition sample_ok :: "data_sample \<Rightarrow> bool" where
  "sample_ok s \<longleftrightarrow>
     (case pred_pts_seg s of
        None \<Rightarrow> False
      | Some ps \<Rightarrow>
          (case eval_ann_info s of
             None \<Rightarrow> False
           | Some gs \<Rightarrow>
               list_all (\<lambda>kv. comprehension_ok (snd kv) \<and> capability_ok (snd kv)) ps \<and>
               list_all (\<lambda>kv. comprehension_ok (snd kv)) gs))"

subsection \<open>The capability-aware conversion alone\<close>

text \<open>
  The conversion the specification describes for \<open>pred_pts_seg\<close>: "adopt only the second
  (capability-aware) conversion policy". It is the loop of lines 64 to 68 run on an empty
  dict, without the comprehension of lines 56 to 59 before it.
\<close>

definition capability_only :: "fields \<Rightarrow> 'e heap \<Rightarrow> error + fields \<times> 'e heap" where
  "capability_only pred_3d h = capability_loop pred_3d [] h"

subsection \<open>Digits after the decimal point\<close>

definition isdigit :: "char \<Rightarrow> bool" where
  "isdigit c \<longleftrightarrow> c \<in> set ''0123456789''"

definition fraction_digits :: "string \<Rightarrow> string option" where
  \<comment> \<open>the characters after the first decimal point, if there is one\<close>
  "fraction_digits s =
     (case dropWhile (\<lambda>c. c \<noteq> CHR ''.'') s of [] \<Rightarrow> None | _ # d \<Rightarrow> Some d)"

definition four_decimals :: "string \<Rightarrow> bool" where
  "four_decimals s \<longleftrightarrow>
     (case fraction_digits s of None \<Rightarrow> False | Some d \<Rightarrow> length d = 4 \<and> list_all isdigit d)"

subsection \<open>Example inputs\<close>

text \<open>
  A heap with two buffers; a sample whose prediction is a tensor on a GPU and whose ground
  truth is a tensor in host memory; a metric that has accumulated nothing.
\<close>

definition example_heap :: "int heap" where
  "example_heap = [[3, 3, 7], [0, 0, 1, 1]]"

definition example_sample :: data_sample where
  "example_sample =
     \<lparr>pred_pts_seg = Some [(''instance_labels'', tensor (CUDA 0) 0)],
      eval_ann_info = Some [(''pts_instance_mask'', tensor CPU 1)]\<rparr>"

definition empty_metric :: metric where
  "empty_metric = \<lparr>results = []\<rparr>"

text \<open>
  The heap and the metric after \<open>process\<close> has run on the example: the comprehensions have
  allocated the buffers 2 to 4, the loop the buffers 5 and 6.
\<close>

definition example_heap' :: "int heap" where
  "example_heap' =
     [[3, 3, 7], [0, 0, 1, 1], [3, 3, 7], [3, 3, 7], [0, 0, 1, 1], [3, 3, 7], [3, 3, 7]]"

definition example_metric' :: metric where
  "example_metric' =
     \<lparr>results = [([(''instance_labels'', ndarray 6)], [(''pts_instance_mask'', ndarray 4)])]\<rparr>"

text \<open>
  A batch of two samples with two fields in every dict, to be processed by a metric that
  has accumulated the first example; a batch whose second sample lacks the key
  \<open>'eval_ann_info'\<close>.
\<close>

definition second_sample :: data_sample where
  "second_sample =
     \<lparr>pred_pts_seg = Some [(''instance_labels'', tensor CPU 1),
                           (''instance_scores'', tensor (CUDA 0) 0)],
      eval_ann_info = Some [(''pts_instance_mask'', tensor CPU 1),
                            (''pts_semantic_mask'', tensor CPU 0)]\<rparr>"

definition third_sample :: data_sample where
  "third_sample =
     \<lparr>pred_pts_seg = Some [(''instance_scores'', tensor CPU 0),
                           (''instance_labels'', tensor (CUDA 1) 1)],
      eval_ann_info = Some [(''pts_semantic_mask'', tensor CPU 1),
                            (''pts_instance_mask'', tensor CPU 0)]\<rparr>"

definition example_batch :: "data_sample list" where
  "example_batch = [second_sample, third_sample]"




text \<open>
  A value in host memory that can be cloned and turned into an array but has no method for
  a device transfer, neither \<open>to\<close> nor \<open>cpu\<close>: the kind of value the \<open>else\<close> branch of
  line 68 is written for.
\<close>

definition host_only :: "nat \<Rightarrow> pyobj" where
  "host_only a = \<lparr>has_clone = True, has_cpu = False, has_to = False, has_numpy = True,
     device = CPU, requires_grad = False, storage = a\<rparr>"

text \<open>
  Two reports: one class with perfect scores, and one class that occurs neither in the
  predictions nor in the ground truth, whose AP values are NaN.
\<close>

definition one :: pyfloat where
  "one = Finite False 1 0"

definition chair_report :: report where
  "chair_report =
     \<lparr>classes = [(''chair'', \<lparr>ap25 = one, ap50 = one, ap = one\<rparr>)],
      all_ap_25 = one, all_ap_50 = one, all_ap = one\<rparr>"

definition nan_report :: report where
  "nan_report =
     \<lparr>classes = [(''chair'', \<lparr>ap25 = NaN, ap50 = NaN, ap = NaN\<rparr>)],
      all_ap_25 = NaN, all_ap_50 = NaN, all_ap = NaN\<rparr>"

text \<open>
  A report with two classes, of which the second occurs in no sample; the averages skip
  the NaN values.
\<close>

definition two_class_report :: report where
  "two_class_report =
     \<lparr>classes = [(''chair'', \<lparr>ap25 = one, ap50 = one, ap = one\<rparr>),
                 (''table'', \<lparr>ap25 = NaN, ap50 = NaN, ap = NaN\<rparr>)],
      all_ap_25 = one, all_ap_50 = one, all_ap = one\<rparr>"

text \<open>
  A computation in the manner of the base metric, whose AP values are NaN when nothing
  has been accumulated, and a rendering that writes the cells one after the other.
\<close>

definition example_compute ::
  "unit list \<Rightarrow> (string \<times> unit) list \<Rightarrow> int heap \<Rightarrow> (fields \<times> fields) list \<Rightarrow> error + report" where
  "example_compute args kw h rs = (if rs = [] then Inr nan_report else Inr chair_report)"


section \<open>Lemmas on the heap and the conversions\<close>

lemma contents_append: "a < length h \<Longrightarrow> contents (h @ e) a = contents h a"
  by (simp add: contents_def nth_append)

lemma storage_ndarray: "storage (ndarray a) = a"
  by (simp add: ndarray_def)

lemma conv_comprehension_Inr:
  assumes "conv_comprehension v h = Inr (a, h')"
  shows "prefix h h'" and "host_copy h v h' a"
  using assms
  by (auto simp: conv_comprehension_def and_then_def clone_def cpu_def numpy_def host_copy_def
      storage_ndarray nth_append contents_def
      split: if_splits)

lemma conv_to_Inr:
  assumes "conv_to v h = Inr (a, h')"
  shows "prefix h h'" and "host_copy h v h' a"
  using assms
  by (auto simp: conv_to_def and_then_def clone_def to_cpu_def numpy_def host_copy_def
      storage_ndarray nth_append contents_def
      split: if_splits)

lemma conv_else_Inr:
  assumes "conv_else v h = Inr (a, h')"
  shows "prefix h h'" and "host_copy h v h' a"
  using assms
  by (auto simp: conv_else_def and_then_def clone_def numpy_def host_copy_def
      storage_ndarray nth_append contents_def
      split: if_splits)

lemma capability_conv_Inr:
  assumes "(if has_to v then conv_to v h else conv_else v h) = Inr (a, h')"
  shows "prefix h h'" and "host_copy h v h' a"
  using assms conv_to_Inr conv_else_Inr by (auto split: if_splits)

lemma host_copy_mono:
  assumes "prefix h0 h1" "storage v < length h0" "host_copy h1 v h2 a" "prefix h2 h3"
  shows "host_copy h0 v h3 a"
  using assms
  by (auto simp: host_copy_def prefix_def contents_def nth_append)

lemma host_copy_grow: "host_copy h v h1 a \<Longrightarrow> prefix h1 h2 \<Longrightarrow> host_copy h v h2 a"
  by (auto simp: host_copy_def prefix_def contents_def nth_append)

lemma converted_Nil: "converted h [] h' []"
  by (simp add: converted_def)

lemma converted_Cons:
  "converted h ((k, v) # kvs) h' ((k', a) # d) \<longleftrightarrow>
     k' = k \<and> host_copy h v h' a \<and> converted h kvs h' d"
  by (simp add: converted_def)

lemma converted_keys: "converted h kvs h' d \<Longrightarrow> map fst d = map fst kvs"
  unfolding converted_def by (induction rule: list_all2_induct) simp_all

lemma converted_grow: "converted h kvs h1 d \<Longrightarrow> prefix h1 h2 \<Longrightarrow> converted h kvs h2 d"
  unfolding converted_def
  by (erule list_all2_mono) (auto intro: host_copy_grow)


subsection \<open>The dict comprehension\<close>

lemma comprehension_Inr:
  assumes "comprehension kvs h = Inr (d, h')" and "prefix h0 h"
    and "list_all (\<lambda>kv. storage (snd kv) < length h0) kvs"
  shows "prefix h h' \<and> converted h0 kvs h' d"
  using assms
proof (induction kvs arbitrary: h d)
  case Nil
  then show ?case by (simp add: converted_Nil)
next
  case (Cons kv kvs)
  obtain k v where kv: "kv = (k, v)" by (cases kv)
  from Cons.prems(1) kv obtain a h1 d1 where
    c: "conv_comprehension v h = Inr (a, h1)" and
    r: "comprehension kvs h1 = Inr (d1, h')" and
    d: "d = (k, a) # d1"
    by (auto split: sum.splits)
  from c have p1: "prefix h h1" and hc: "host_copy h v h1 a"
    by (rule conv_comprehension_Inr)+
  from Cons.prems(2) p1 have p01: "prefix h0 h1" by (rule prefix_order.trans)
  from Cons.prems(3) have vs: "list_all (\<lambda>kv. storage (snd kv) < length h0) kvs"
    and v: "storage v < length h0" by (simp_all add: kv)
  from Cons.IH [OF r p01 vs] have p2: "prefix h1 h'" and cv: "converted h0 kvs h' d1"
    by simp_all
  from Cons.prems(2) v hc p2 have "host_copy h0 v h' a" by (rule host_copy_mono)
  with cv p1 p2 show ?case
    by (auto simp: kv d converted_Cons intro: prefix_order.trans)
qed

subsection \<open>The capability-aware loop\<close>

lemma setitem_overwrite:
  "k \<notin> fst ` set pre \<Longrightarrow> setitem k a (pre @ (k, b) # suf) = pre @ (k, a) # suf"
  by (induction pre) auto

lemma setitem_append:
  "k \<notin> fst ` set pre \<Longrightarrow> setitem k a pre = pre @ [(k, a)]"
  by (induction pre) auto

text \<open>
  Run on a dict that has the keys of the items still to visit as its last keys, the loop
  overwrites every one of these entries and leaves the entries before them as they are.
\<close>

lemma capability_loop_overwrites:
  assumes "capability_loop kvs (pre @ suf) h = Inr (d, h')"
    and "map fst suf = map fst kvs" and "distinct (map fst (pre @ suf))"
    and "prefix h0 h" and "list_all (\<lambda>kv. storage (snd kv) < length h0) kvs"
  shows "prefix h h' \<and> (\<exists>suf'. d = pre @ suf' \<and> converted h0 kvs h' suf')"
  using assms
proof (induction kvs arbitrary: pre suf h)
  case Nil
  then show ?case by (simp add: converted_Nil)
next
  case (Cons kv kvs)
  obtain k v where kv: "kv = (k, v)" by (cases kv)
  from Cons.prems(2) kv obtain b suf1 where suf: "suf = (k, b) # suf1"
    and keys: "map fst suf1 = map fst kvs"
    by (cases suf) auto
  from Cons.prems(3) suf have notin: "k \<notin> fst ` set pre"
    and dist: "distinct (map fst ((pre @ [(k, a)]) @ suf1))" for a
    by auto
  from Cons.prems(1) kv obtain a h1 where
    c: "(if has_to v then conv_to v h else conv_else v h) = Inr (a, h1)" and
    r: "capability_loop kvs (setitem k a (pre @ suf)) h1 = Inr (d, h')"
    by (auto split: sum.splits)
  from c have p1: "prefix h h1" and hc: "host_copy h v h1 a"
    by (rule capability_conv_Inr)+
  from r notin have r': "capability_loop kvs ((pre @ [(k, a)]) @ suf1) h1 = Inr (d, h')"
    by (simp add: suf setitem_overwrite)
  from Cons.prems(4) p1 have p01: "prefix h0 h1" by (rule prefix_order.trans)
  from Cons.prems(5) have vs: "list_all (\<lambda>kv. storage (snd kv) < length h0) kvs"
    and v: "storage v < length h0" by (simp_all add: kv)
  from Cons.IH [OF r' keys dist p01 vs] obtain suf' where
    p2: "prefix h1 h'" and d: "d = (pre @ [(k, a)]) @ suf'" and cv: "converted h0 kvs h' suf'"
    by auto
  from Cons.prems(4) v hc p2 have "host_copy h0 v h' a" by (rule host_copy_mono)
  with cv have "converted h0 (kv # kvs) h' ((k, a) # suf')"
    by (simp add: kv converted_Cons)
  moreover have "d = pre @ (k, a) # suf'" using d by simp
  moreover have "prefix h h'" using p1 p2 by (rule prefix_order.trans)
  ultimately show ?case by blast
qed

subsection \<open>One sample, all samples, the call\<close>

lemma process_sample_Inr:
  assumes "process_sample s h = Inr (pg, h')" and "prefix h0 h" and "valid_sample h0 s"
  shows "prefix h h' \<and> sample_converted h0 s h' pg"
proof -
  from assms(1) obtain ps gs where ps: "pred_pts_seg s = Some ps" and gs: "eval_ann_info s = Some gs"
    by (auto simp: process_sample_def split: option.splits)
  from assms(1) ps gs obtain d1 h1 g h2 p where
    c1: "comprehension ps h = Inr (d1, h1)" and
    c2: "comprehension gs h1 = Inr (g, h2)" and
    l: "capability_loop ps d1 h2 = Inr (p, h')" and
    pg: "pg = (p, g)"
    by (auto simp: process_sample_def and_then_def split: sum.splits)
  from assms(3) ps gs have vp: "list_all (\<lambda>kv. storage (snd kv) < length h0) ps"
    and dp: "distinct (map fst ps)"
    and vg: "list_all (\<lambda>kv. storage (snd kv) < length h0) gs"
    by (simp_all add: valid_sample_def valid_fields_def)
  from comprehension_Inr [OF c1 assms(2) vp] have p1: "prefix h h1" and k1: "map fst d1 = map fst ps"
    by (auto dest: converted_keys)
  from assms(2) p1 have p01: "prefix h0 h1" by (rule prefix_order.trans)
  from comprehension_Inr [OF c2 p01 vg] have p2: "prefix h1 h2" and cg: "converted h0 gs h2 g"
    by simp_all
  from p01 p2 have p02: "prefix h0 h2" by (rule prefix_order.trans)
  from l have l': "capability_loop ps ([] @ d1) h2 = Inr (p, h')" by simp
  from dp k1 have dd: "distinct (map fst ([] @ d1))" by simp
  from capability_loop_overwrites [OF l' k1 dd p02 vp]
  have p3: "prefix h2 h'" and cp: "converted h0 ps h' p" by auto
  from cg p3 have "converted h0 gs h' g" by (rule converted_grow)
  with cp have "sample_converted h0 s h' pg"
    by (simp add: sample_converted_def ps gs pg)
  moreover from p1 p2 p3 have "prefix h h'" by (blast intro: prefix_order.trans)
  ultimately show ?thesis by simp
qed



subsection \<open>Fresh buffers\<close>












section \<open>Lemmas on the format\<close>

lemma digit_isdigit: "isdigit (digit n)"
proof -
  have "n mod 10 \<in> {0, 1, 2, 3, 4, 5, 6, 7, 8, 9}"
    unfolding insert_iff empty_iff by presburger
  then show ?thesis
    unfolding digit_def isdigit_def by (elim insertE emptyE) simp_all
qed

lemma digit_not_dot: "digit n \<noteq> CHR ''.''"
  using digit_isdigit [of n] by (auto simp: isdigit_def)

lemma decimal_no_dot: "CHR ''.'' \<notin> set (decimal n)"
proof (induction n rule: decimal.induct)
  case (1 n)
  show ?case
  proof (cases "n < 10")
    case True
    then show ?thesis using digit_not_dot [of n] by (subst decimal.simps) auto
  next
    case False
    with 1 show ?thesis using digit_not_dot [of n] by (subst decimal.simps) auto
  qed
qed

lemma fraction_digits_skip:
  "CHR ''.'' \<notin> set xs \<Longrightarrow> fraction_digits (xs @ CHR ''.'' # d) = Some d"
proof -
  assume "CHR ''.'' \<notin> set xs"
  then have "dropWhile (\<lambda>c. c \<noteq> CHR ''.'') (xs @ CHR ''.'' # d) =
      dropWhile (\<lambda>c. c \<noteq> CHR ''.'') (CHR ''.'' # d)"
    by (intro dropWhile_append2) auto
  then show ?thesis by (simp add: fraction_digits_def)
qed

lemma format_4f_Finite:
  "format_4f (Finite s m e) =
     ((if s then ''-'' else []) @ decimal (scaled4 m e div 10000)) @ CHR ''.'' #
     [digit (scaled4 m e div 1000), digit (scaled4 m e div 100), digit (scaled4 m e div 10),
      digit (scaled4 m e)]"
  by (simp add: format_4f_def Let_def)

lemma four_decimals_Finite: "four_decimals (format_4f (Finite s m e))"
proof -
  have "CHR ''.'' \<notin> set ((if s then ''-'' else []) @ decimal (scaled4 m e div 10000))"
    using decimal_no_dot by simp
  then show ?thesis
    unfolding format_4f_Finite four_decimals_def
    by (simp add: fraction_digits_skip digit_isdigit del: append_assoc)
qed

lemma not_four_decimals_NaN: "\<not> four_decimals (format_4f NaN)"
  by (simp add: four_decimals_def fraction_digits_def format_4f_def)

section \<open>When process raises\<close>

lemma conv_comprehension_isl: "isl (conv_comprehension v h) \<longleftrightarrow> \<not> comprehension_ok v"
  by (simp add: conv_comprehension_def and_then_def clone_def cpu_def numpy_def
      comprehension_ok_def)

lemma capability_conv_isl:
  "isl (if has_to v then conv_to v h else conv_else v h) \<longleftrightarrow> \<not> capability_ok v"
  by (simp add: conv_to_def conv_else_def and_then_def clone_def to_cpu_def numpy_def
      capability_ok_def)

lemma comprehension_isl:
  "isl (comprehension kvs h) \<longleftrightarrow> \<not> list_all (\<lambda>kv. comprehension_ok (snd kv)) kvs"
proof (induction kvs arbitrary: h)
  case Nil
  then show ?case by simp
next
  case (Cons kv kvs)
  obtain k v where kv: "kv = (k, v)" by (cases kv)
  show ?case
  proof (cases "conv_comprehension v h")
    case (Inl e)
    with conv_comprehension_isl [of v h] show ?thesis by (simp add: kv)
  next
    case (Inr r)
    obtain a h1 where r: "r = (a, h1)" by (cases r)
    from Inr conv_comprehension_isl [of v h] have ok: "comprehension_ok v" by simp
    from Cons.IH [of h1] Inr ok show ?thesis
      by (cases "comprehension kvs h1") (auto simp: kv r)
  qed
qed

lemma capability_loop_isl:
  "isl (capability_loop kvs d h) \<longleftrightarrow> \<not> list_all (\<lambda>kv. capability_ok (snd kv)) kvs"
proof (induction kvs arbitrary: d h)
  case Nil
  then show ?case by simp
next
  case (Cons kv kvs)
  obtain k v where kv: "kv = (k, v)" by (cases kv)
  show ?case
  proof (cases "if has_to v then conv_to v h else conv_else v h")
    case (Inl e)
    with capability_conv_isl [of v h] show ?thesis by (simp add: kv)
  next
    case (Inr r)
    obtain a h1 where r: "r = (a, h1)" by (cases r)
    from Inr capability_conv_isl [of v h] have ok: "capability_ok v" by simp
    from Cons.IH [of "setitem k a d" h1] Inr ok show ?thesis
      by (simp add: kv r)
  qed
qed

lemma process_sample_isl: "isl (process_sample s h) \<longleftrightarrow> \<not> sample_ok s"
proof (cases "pred_pts_seg s")
  case None
  then show ?thesis by (simp add: process_sample_def sample_ok_def)
next
  case ps: (Some ps)
  show ?thesis
  proof (cases "eval_ann_info s")
    case None
    with ps show ?thesis by (simp add: process_sample_def sample_ok_def)
  next
    case gs: (Some gs)
    have "isl (process_sample s h) \<longleftrightarrow>
      \<not> (list_all (\<lambda>kv. comprehension_ok (snd kv)) ps \<and>
         list_all (\<lambda>kv. comprehension_ok (snd kv)) gs \<and>
         list_all (\<lambda>kv. capability_ok (snd kv)) ps)"
      using comprehension_isl [of ps h]
    proof (cases "comprehension ps h")
      case (Inl e)
      then show ?thesis using comprehension_isl [of ps h]
        by (simp add: process_sample_def ps gs and_then_def)
    next
      case (Inr r1)
      obtain d1 h1 where r1: "r1 = (d1, h1)" by (cases r1)
      from Inr comprehension_isl [of ps h]
      have ok1: "list_all (\<lambda>kv. comprehension_ok (snd kv)) ps" by simp
      show ?thesis
      proof (cases "comprehension gs h1")
        case (Inl e)
        then show ?thesis using comprehension_isl [of gs h1] Inr
          by (simp add: process_sample_def ps gs and_then_def r1)
      next
        case r2: (Inr r2)
        obtain g h2 where r2': "r2 = (g, h2)" by (cases r2)
        from r2 comprehension_isl [of gs h1]
        have ok2: "list_all (\<lambda>kv. comprehension_ok (snd kv)) gs" by simp
        show ?thesis using capability_loop_isl [of ps d1 h2] Inr r2 ok1 ok2
          by (cases "capability_loop ps d1 h2")
            (auto simp: process_sample_def ps gs and_then_def r1 r2')
      qed
    qed
    then show ?thesis
      by (auto simp: sample_ok_def ps gs list_all_iff)
  qed
qed

lemma samples_loop_isl: "isl (samples_loop ss pred gt h) \<longleftrightarrow> \<not> list_all sample_ok ss"
proof (induction ss arbitrary: pred gt h)
  case Nil
  then show ?case by simp
next
  case (Cons s ss)
  show ?case
  proof (cases "process_sample s h")
    case (Inl e)
    with process_sample_isl [of s h] show ?thesis by simp
  next
    case (Inr r)
    obtain p g h1 where r: "r = ((p, g), h1)" by (cases r) auto
    from Inr process_sample_isl [of s h] have "sample_ok s" by simp
    with Cons.IH [of "pred @ [p]" "gt @ [g]" h1] Inr show ?thesis
      by (simp add: r)
  qed
qed

text \<open>
  With field values described as above, \<open>process\<close> raises exactly when some sample lacks
  one of the two keys, or has a value that one of its conversion chains cannot convert:
  a method is missing, the value requires grad, or a value without \<open>to\<close> is not in host
  memory.
\<close>

lemma process_isl: "isl (process data_batch ss sh) \<longleftrightarrow> \<not> list_all sample_ok ss"
  using samples_loop_isl [of ss "[]" "[]" "snd sh"]
  by (cases "samples_loop ss [] [] (snd sh)") (auto simp: process_def)

section \<open>The capability-aware conversion alone\<close>

lemma capability_loop_appends:
  assumes "capability_loop kvs pre h = Inr (d, h')"
    and "distinct (map fst kvs)" and "fst ` set pre \<inter> fst ` set kvs = {}"
    and "prefix h0 h" and "list_all (\<lambda>kv. storage (snd kv) < length h0) kvs"
  shows "prefix h h' \<and> (\<exists>suf'. d = pre @ suf' \<and> converted h0 kvs h' suf')"
  using assms
proof (induction kvs arbitrary: pre h)
  case Nil
  then show ?case by (simp add: converted_Nil)
next
  case (Cons kv kvs)
  obtain k v where kv: "kv = (k, v)" by (cases kv)
  from Cons.prems(3) have notin: "k \<notin> fst ` set pre" by (auto simp: kv)
  from Cons.prems(1) kv obtain a h1 where
    c: "(if has_to v then conv_to v h else conv_else v h) = Inr (a, h1)" and
    r: "capability_loop kvs (setitem k a pre) h1 = Inr (d, h')"
    by (auto split: sum.splits)
  from c have p1: "prefix h h1" and hc: "host_copy h v h1 a"
    by (rule capability_conv_Inr)+
  from r notin have r': "capability_loop kvs (pre @ [(k, a)]) h1 = Inr (d, h')"
    by (simp add: setitem_append)
  from Cons.prems(2) have dist: "distinct (map fst kvs)" and knot: "k \<notin> fst ` set kvs"
    by (auto simp: kv)
  from Cons.prems(3) knot have disj: "fst ` set (pre @ [(k, a)]) \<inter> fst ` set kvs = {}"
    by (auto simp: kv)
  from Cons.prems(4) p1 have p01: "prefix h0 h1" by (rule prefix_order.trans)
  from Cons.prems(5) have vs: "list_all (\<lambda>kv. storage (snd kv) < length h0) kvs"
    and v: "storage v < length h0" by (simp_all add: kv)
  from Cons.IH [OF r' dist disj p01 vs] obtain suf' where
    p2: "prefix h1 h'" and d: "d = (pre @ [(k, a)]) @ suf'" and cv: "converted h0 kvs h' suf'"
    by auto
  from Cons.prems(4) v hc p2 have "host_copy h0 v h' a" by (rule host_copy_mono)
  with cv have "converted h0 (kv # kvs) h' ((k, a) # suf')"
    by (simp add: kv converted_Cons)
  moreover have "d = pre @ (k, a) # suf'" using d by simp
  moreover have "prefix h h'" using p1 p2 by (rule prefix_order.trans)
  ultimately show ?case by blast
qed

lemma capability_only_Inr:
  assumes "capability_only ps h = Inr (d, h')" and "valid_fields h ps"
  shows "prefix h h' \<and> converted h ps h' d"
proof -
  from assms(1) have l: "capability_loop ps [] h = Inr (d, h')"
    by (simp add: capability_only_def)
  from assms(2) have dist: "distinct (map fst ps)"
    and vs: "list_all (\<lambda>kv. storage (snd kv) < length h) ps"
    by (simp_all add: valid_fields_def)
  have disj: "fst ` set [] \<inter> fst ` set ps = {}" by simp
  from capability_loop_appends [OF l dist disj prefix_order.refl vs] show ?thesis by simp
qed

text \<open>
  Where \<open>process\<close> returns, the capability-aware conversion alone returns as well, and
  both predictions are conversions of the same dict: the same keys in the same order and
  under each key a host array with the same data.
\<close>

lemma process_sample_agrees_with_capability_only:
  assumes "process_sample s h = Inr ((p, g), h')" and "valid_sample h s"
    and "pred_pts_seg s = Some ps"
  shows "\<exists>p2 h2. capability_only ps h = Inr (p2, h2) \<and> converted h ps h2 p2 \<and>
    converted h ps h' p"
proof -
  from assms(1) have "\<not> isl (process_sample s h)" by simp
  then have "sample_ok s" by (simp add: process_sample_isl)
  with assms(3) have "list_all (\<lambda>kv. capability_ok (snd kv)) ps"
    by (auto simp: sample_ok_def list_all_iff split: option.splits)
  then have "\<not> isl (capability_only ps h)"
    by (simp add: capability_only_def capability_loop_isl)
  then obtain p2 h2 where c: "capability_only ps h = Inr (p2, h2)"
    by (cases "capability_only ps h") auto
  from assms(2,3) have v: "valid_fields h ps" by (simp add: valid_sample_def)
  from capability_only_Inr [OF c v] have "converted h ps h2 p2" by simp
  moreover from process_sample_Inr [OF assms(1) prefix_order.refl assms(2)] assms(3)
  have "converted h ps h' p" by (auto simp: sample_converted_def split: option.splits)
  ultimately show ?thesis using c by blast
qed

section \<open>The example, run\<close>

lemmas run_defs = process_def process_sample_def and_then_def conv_comprehension_def
  conv_to_def conv_else_def clone_def cpu_def to_cpu_def numpy_def contents_def add_def
  tensor_def

lemma example_run:
  "process data_batch [example_sample] (empty_metric, example_heap) =
     Inr (example_metric', example_heap')"
  by (simp add: run_defs example_sample_def example_heap_def empty_metric_def
      example_metric'_def example_heap'_def eval_nat_numeral)

lemma example_valid: "list_all (valid_sample example_heap) [example_sample]"
  by (simp add: valid_sample_def valid_fields_def example_sample_def example_heap_def tensor_def)



lemma batch_ok: "list_all sample_ok example_batch"
  by (simp add: sample_ok_def comprehension_ok_def capability_ok_def example_batch_def
      second_sample_def third_sample_def tensor_def)

text \<open>
  A tensor that requires grad: no chain detaches it, and \<open>numpy\<close> raises.
\<close>

lemma requires_grad_raises:
  "process data_batch
     [\<lparr>pred_pts_seg = Some [(''instance_labels'', (tensor CPU 0)\<lparr>requires_grad := True\<rparr>)],
       eval_ann_info = Some []\<rparr>]
     (empty_metric, example_heap) = Inl RuntimeError"
  by (simp add: run_defs example_heap_def)

section \<open>The order of the calls in a conversion\<close>




lemmas fail_defs = process_def process_sample_def and_then_def conv_comprehension_def
  conv_else_def clone_def cpu_def numpy_def contents_def host_only_def ndarray_def
  capability_only_def example_heap_def

section \<open>The claims about process\<close>

text \<open>
  C9. Two calls of \<open>process\<close> on the same state of the metric, with the same
  \<open>data_samples\<close> and with any two values of \<open>data_batch\<close>, even of different types, have
  the same outcome: the same error, or the same accumulated results and the same heap.
  The argument \<open>data_batch\<close> has no influence.
\<close>

theorem process_ignores_data_batch:
  "process data_batch ss sh = process data_batch' ss sh"
  by (simp add: process_def)







text \<open>
  C1. The claim: every field of \<open>pred_pts_seg\<close> and of \<open>eval_ann_info\<close> is converted to a
  host array, a value without a device-transfer method is copied directly into array
  form, and \<open>process\<close> succeeds on it. The code raises instead. The value \<open>host_only\<close> has
  neither \<open>to\<close> nor \<open>cpu\<close>; the direct copy \<open>v.clone().numpy()\<close> of line 68 converts it. As
  a field of \<open>eval_ann_info\<close> it meets only the comprehension of line 61, whose \<open>.cpu()\<close>
  raises an AttributeError; as a field of \<open>pred_pts_seg\<close> it meets the comprehension of
  line 57 first, which raises in the same way before the loop of line 64 is reached. A
  \<open>numpy.ndarray\<close> in \<open>eval_ann_info\<close> fails at \<open>.clone()\<close>.
\<close>

theorem process_raises_without_device_transfer:
  "\<not> has_to (host_only 1) \<and> \<not> has_cpu (host_only 1) \<and>
   conv_else (host_only 1) example_heap = Inr (ndarray 2, example_heap @ [[0, 0, 1, 1]]) \<and>
   process ()
     [\<lparr>pred_pts_seg = Some [], eval_ann_info = Some [(''pts_instance_mask'', host_only 1)]\<rparr>]
     (empty_metric, example_heap) = Inl AttributeError \<and>
   process ()
     [\<lparr>pred_pts_seg = Some [(''instance_labels'', host_only 0)], eval_ann_info = Some []\<rparr>]
     (empty_metric, example_heap) = Inl AttributeError \<and>
   process ()
     [\<lparr>pred_pts_seg = Some [], eval_ann_info = Some [(''pts_instance_mask'', ndarray 1)]\<rparr>]
     (empty_metric, example_heap) = Inl AttributeError"
  by (simp add: fail_defs)

text \<open>
  C8. The claim: \<open>process\<close> behaves like an implementation that runs only the
  capability-aware loop on \<open>pred_pts_seg\<close>, the work of the comprehension being discarded.
  The values of the comprehension are all overwritten, but the comprehension runs first
  and can raise: on a prediction with the field value \<open>host_only\<close> the call raises an
  AttributeError, while the capability-aware loop alone returns the converted dict.
  Where \<open>process\<close> does return, the two agree: lemma
  \<open>process_sample_agrees_with_capability_only\<close>.
\<close>

theorem comprehension_defeats_capability_loop:
  "process ()
     [\<lparr>pred_pts_seg = Some [(''instance_labels'', host_only 0)], eval_ann_info = Some []\<rparr>]
     (empty_metric, example_heap) = Inl AttributeError \<and>
   capability_only [(''instance_labels'', host_only 0)] example_heap =
     Inr ([(''instance_labels'', ndarray 2)], example_heap @ [[3, 3, 7]])"
  by (simp add: fail_defs)

section \<open>The claims about __init__\<close>

lemma warnings_differ: "collect_device_warning \<noteq> prefix_warning"
  by (simp add: collect_device_warning_def prefix_warning_def)

text \<open>
  C4. A construction with a \<open>collect_device\<close> that is not \<open>None\<close> passes exactly one
  warning about it to \<open>warnings.warn\<close>, and a construction with a \<open>prefix\<close> that is not
  \<open>None\<close> exactly one about \<open>prefix\<close>; a parameter that is \<open>None\<close> gets no warning, and
  there is no other warning. The constructor then calls the base constructor in every
  case, with the arguments it would pass if neither parameter had been given: the
  deprecated values are not forwarded.
\<close>

theorem init_warns_once_and_drops:
  "count_list (fst (init dm db cd pf kw)) collect_device_warning = (if cd = None then 0 else 1) \<and>
   count_list (fst (init dm db cd pf kw)) prefix_warning = (if pf = None then 0 else 1) \<and>
   length (fst (init dm db cd pf kw)) = (if cd = None then 0 else 1) + (if pf = None then 0 else 1) \<and>
   snd (init dm db cd pf kw) = snd (init dm db None None kw)"
  using warnings_differ by (auto simp: init_def)

text \<open>
  C5 as stated, that \<open>dataset_meta\<close> and \<open>dist_backend\<close> are all that reaches the base
  constructor, fails: the call of line 36 ends in \<open>**kwargs\<close>. A construction with the
  option \<open>valid_class_ids\<close> hands it on.
\<close>

theorem init_forwards_kwargs_counterexample:
  "kwargs (snd (init () None None None [(''valid_class_ids'', [3, 4, 5 :: nat])])) \<noteq> []"
  by (simp add: init_def)

text \<open>
  C5, amended. The constructor calls the base constructor with \<open>dataset_meta\<close>, with
  \<open>dist_backend\<close> and with every keyword argument collected in \<open>**kwargs\<close>, each unchanged;
  \<open>collect_device\<close> and \<open>prefix\<close> are the only parameters it does not forward.
\<close>

theorem init_forwards:
  "snd (init dm db cd pf kw) = \<lparr>dataset_meta = dm, dist_backend = db, kwargs = kw\<rparr>"
  by (simp add: init_def)

section \<open>The claims about evaluate\<close>

text \<open>
  The example of the specification: a class with perfect scores has the row
  \<open>['chair', '1.0000', '1.0000', '1.0000']\<close>.
\<close>

lemma chair_row:
  "class_row (''chair'', \<lparr>ap25 = one, ap50 = one, ap = one\<rparr>) =
     [''chair'', ''1.0000'', ''1.0000'', ''1.0000'']"
  by (simp add: class_row_def one_def format_4f_def scaled4_def digit_def)


lemma report_table_rows:
  "table_data (report_table m) =
     [[''classes'', ''AP_0.25'', ''AP_0.50'', ''AP'']] @
     map (\<lambda>(label, d). [label, format_4f (ap25 d), format_4f (ap50 d), format_4f (ap d)])
       (classes m) @
     [[''Overall'', format_4f (all_ap_25 m), format_4f (all_ap_50 m), format_4f (all_ap m)]]"
  by (simp add: report_table_def AsciiTable_def header_def footer_def class_row_def
      case_prod_unfold)

text \<open>
  C7. \<open>evaluate\<close> passes its positional and its keyword arguments on to the computation
  as they are, together with the accumulated results, and what it returns is what the
  computation returns for them: the report itself, not the text of the table, which goes
  to the log; if the computation raises, \<open>evaluate\<close> raises the same error.
\<close>

theorem evaluate_returns_raw_report:
  "map_sum id fst (evaluate render compute args kw h st) = compute args kw h (results st)"
  by (cases "compute args kw h (results st)") (simp_all add: evaluate_def)



subsection \<open>The drawn table\<close>

lemma gen_table_body_rows:
  "i \<noteq> 0 \<Longrightarrow>
   gen_table_body True ws i (rows @ [ftr]) =
     map (row_line ws) rows @ (if rows = [] then [] else [horizontal_border ws]) @
     [row_line ws ftr]"
proof (induction rows arbitrary: i)
  case Nil
  then show ?case by simp
next
  case (Cons r rows)
  show ?case
  proof (cases rows)
    case Nil
    with Cons.prems show ?thesis by simp
  next
    case (Cons r' rs)
    with Cons.IH [of "Suc i"] Cons.prems show ?thesis by simp
  qed
qed

lemma gen_table_body_report:
  "gen_table_body True ws 0 (hdr # rows @ [ftr]) =
     [row_line ws hdr, horizontal_border ws] @ map (row_line ws) rows @
     (if rows = [] then [] else [horizontal_border ws]) @ [row_line ws ftr]"
proof (cases rows)
  case Nil
  then show ?thesis by simp
next
  case (Cons r rs)
  with gen_table_body_rows [of "Suc 0" ws "r # rs" ftr] show ?thesis by simp
qed

text \<open>
  The lines of the table of a report: the header between two borders, the rows of the
  classes one under the other, then, if there is a class, a border, the footer and the
  bottom border.
\<close>

lemma gen_table_report:
  "gen_table (report_table m) =
     (let ws = inner_widths (table_data (report_table m)); border = horizontal_border ws
      in [border, row_line ws header, border] @
         map (\<lambda>ld. row_line ws (class_row ld)) (classes m) @
         (if classes m = [] then [] else [border]) @
         [row_line ws (footer m), border])"
  using gen_table_body_report [of "inner_widths (table_data (report_table m))" header
      "map class_row (classes m)" "footer m"]
  by (simp add: gen_table_def report_table_def AsciiTable_def Let_def comp_def)


lemma two_class_data:
  "table_data (report_table two_class_report) =
     [[''classes'', ''AP_0.25'', ''AP_0.50'', ''AP''],
      [''chair'', ''1.0000'', ''1.0000'', ''1.0000''],
      [''table'', ''nan'', ''nan'', ''nan''],
      [''Overall'', ''1.0000'', ''1.0000'', ''1.0000'']]"
  by (simp add: report_table_def AsciiTable_def header_def footer_def class_row_def
      two_class_report_def one_def format_4f_def scaled4_def digit_def)

lemma two_class_flag: "inner_footing_row_border (report_table two_class_report)"
  by (simp add: report_table_def)

lemmas draw_defs = inner_widths_def cell_at_def horizontal_border_def row_line_def pad_cell_def

lemma two_class_lines:
  "gen_table (report_table two_class_report) =
     [''+---------+---------+---------+--------+'',
      ''| classes | AP_0.25 | AP_0.50 | AP     |'',
      ''+---------+---------+---------+--------+'',
      ''| chair   | 1.0000  | 1.0000  | 1.0000 |'',
      ''| table   | nan     | nan     | nan    |'',
      ''+---------+---------+---------+--------+'',
      ''| Overall | 1.0000  | 1.0000  | 1.0000 |'',
      ''+---------+---------+---------+--------+'']"
  unfolding gen_table_def two_class_data
  by (simp add: two_class_flag draw_defs eval_nat_numeral)

lemma chair_data:
  "table_data (report_table chair_report) =
     [[''classes'', ''AP_0.25'', ''AP_0.50'', ''AP''],
      [''chair'', ''1.0000'', ''1.0000'', ''1.0000''],
      [''Overall'', ''1.0000'', ''1.0000'', ''1.0000'']]"
  by (simp add: report_table_def AsciiTable_def header_def footer_def class_row_def
      chair_report_def one_def format_4f_def scaled4_def digit_def)

lemma chair_lines:
  "gen_table (report_table chair_report) =
     [''+---------+---------+---------+--------+'',
      ''| classes | AP_0.25 | AP_0.50 | AP     |'',
      ''+---------+---------+---------+--------+'',
      ''| chair   | 1.0000  | 1.0000  | 1.0000 |'',
      ''+---------+---------+---------+--------+'',
      ''| Overall | 1.0000  | 1.0000  | 1.0000 |'',
      ''+---------+---------+---------+--------+'']"
  unfolding gen_table_def chair_data
  by (simp add: report_table_def draw_defs eval_nat_numeral)

lemma chair_evaluate:
  "evaluate table example_compute [] [] example_heap' example_metric' =
     Inr (chair_report, CHR 0x0A # table (report_table chair_report), empty_metric)"
  by (simp add: evaluate_def example_compute_def example_metric'_def reset_def empty_metric_def)

text \<open>
  C6 as stated fails twice. Not every AP value has four digits after the decimal point:
  the base metric reports NaN for a class that occurs in no sample, and \<open>f'{ap:.4f}'\<close>
  prints NaN as \<open>nan\<close>. And not every pair of rows is separated by a border: the library
  draws one under the header and, with \<open>inner_footing_row_border\<close>, one above the footer,
  but none between the rows of two classes. In the logged table of a report with the
  classes \<open>chair\<close> and \<open>table\<close> the two rows stand on adjacent lines.
\<close>

theorem report_table_counterexample:
  "map_sum id (\<lambda>r. fst (snd r))
     (evaluate table (\<lambda>args kw h rs. Inr two_class_report) ([] :: unit list) []
        ([] :: int heap) empty_metric) =
     Inr (CHR 0x0A # join [CHR 0x0A]
       [''+---------+---------+---------+--------+'',
        ''| classes | AP_0.25 | AP_0.50 | AP     |'',
        ''+---------+---------+---------+--------+'',
        ''| chair   | 1.0000  | 1.0000  | 1.0000 |'',
        ''| table   | nan     | nan     | nan    |'',
        ''+---------+---------+---------+--------+'',
        ''| Overall | 1.0000  | 1.0000  | 1.0000 |'',
        ''+---------+---------+---------+--------+'']) \<and>
   \<not> four_decimals ''nan''"
  using two_class_lines
  by (simp add: evaluate_def table_def four_decimals_def fraction_digits_def)

text \<open>
  C6, amended. For every report that \<open>evaluate\<close> returns, the message passed to the log is
  a newline followed by the drawn table. Its lines are: a border, the header row
  \<open>[classes, AP_0.25, AP_0.50, AP]\<close>, a border, one row per class in the order of the
  report, holding the label and the three AP values of the class, then, if there is a
  class, a border, then the footer row \<open>Overall\<close> with the three dataset-wide AP values,
  and a border: the header and the footer are set off by a border, the rows of the
  classes are not separated from each other. Every AP value is printed by \<open>.4f\<close>, which
  gives a finite value exactly four digits after the decimal point, whatever its
  precision, and prints NaN and the infinities as \<open>nan\<close>, \<open>inf\<close> and \<open>-inf\<close>.
\<close>

theorem evaluate_report_table:
  assumes "evaluate table compute args kw h st = Inr (m, msg, st')"
  shows "msg = CHR 0x0A # join [CHR 0x0A] (gen_table (report_table m)) \<and>
    gen_table (report_table m) =
      (let ws = inner_widths (table_data (report_table m)); border = horizontal_border ws
       in [border, row_line ws [''classes'', ''AP_0.25'', ''AP_0.50'', ''AP''], border] @
          map (\<lambda>(label, d).
                 row_line ws [label, format_4f (ap25 d), format_4f (ap50 d), format_4f (ap d)])
            (classes m) @
          (if classes m = [] then [] else [border]) @
          [row_line ws [''Overall'', format_4f (all_ap_25 m), format_4f (all_ap_50 m),
             format_4f (all_ap m)],
           border]) \<and>
    (\<forall>s mt e. four_decimals (format_4f (Finite s mt e))) \<and>
    format_4f NaN = ''nan'' \<and> format_4f (Infinity False) = ''inf'' \<and>
    format_4f (Infinity True) = ''-inf''"
proof -
  from assms have "msg = CHR 0x0A # join [CHR 0x0A] (gen_table (report_table m))"
    by (auto simp: evaluate_def table_def split: sum.splits)
  moreover have "gen_table (report_table m) =
      (let ws = inner_widths (table_data (report_table m)); border = horizontal_border ws
       in [border, row_line ws [''classes'', ''AP_0.25'', ''AP_0.50'', ''AP''], border] @
          map (\<lambda>(label, d).
                 row_line ws [label, format_4f (ap25 d), format_4f (ap50 d), format_4f (ap d)])
            (classes m) @
          (if classes m = [] then [] else [border]) @
          [row_line ws [''Overall'', format_4f (all_ap_25 m), format_4f (all_ap_50 m),
             format_4f (all_ap m)],
           border])"
    unfolding gen_table_report
    by (simp add: Let_def header_def footer_def class_row_def case_prod_unfold)
  moreover have "format_4f NaN = ''nan''" "format_4f (Infinity False) = ''inf''"
    "format_4f (Infinity True) = ''-inf''"
    by (simp_all add: format_4f_def)
  moreover have "\<forall>s mt e. four_decimals (format_4f (Finite s mt e))"
    using four_decimals_Finite by blast
  ultimately show ?thesis by blast
qed

theorem evaluate_report_table_witness:
  "evaluate table example_compute [] [] example_heap' example_metric' =
     Inr (chair_report, CHR 0x0A # table (report_table chair_report), empty_metric) \<and>
   CHR 0x0A # table (report_table chair_report) =
     CHR 0x0A # join [CHR 0x0A] (gen_table (report_table chair_report)) \<and>
   gen_table (report_table chair_report) =
     [''+---------+---------+---------+--------+'',
      ''| classes | AP_0.25 | AP_0.50 | AP     |'',
      ''+---------+---------+---------+--------+'',
      ''| chair   | 1.0000  | 1.0000  | 1.0000 |'',
      ''+---------+---------+---------+--------+'',
      ''| Overall | 1.0000  | 1.0000  | 1.0000 |'',
      ''+---------+---------+---------+--------+''] \<and>
   four_decimals (format_4f one)"
  using chair_evaluate chair_lines evaluate_report_table [OF chair_evaluate]
  unfolding one_def by blast

end
